theory Spec2Isabelle
  imports Main "HOL-Library.Word"
begin

unbundle bit_operations_syntax

section \<open>The orchestration file \<^verbatim>\<open>main.cpp\<close>\<close>

text \<open>
  \<^verbatim>\<open>main.cpp\<close> owns one global \<^verbatim>\<open>Settings\<close> record and drives a set of
  collaborators (the WiFi manager, the EEPROM buffer, the timer dispatcher, two pulse
  counters, two non-volatile counters, the energy meter). The collaborators' classes are
  declared in headers outside the file, so the model records every call the file makes on
  them, in program order, in a call log; the state that \<^verbatim>\<open>main.cpp\<close> itself owns (the
  settings and the EEPROM buffer it writes through \<^verbatim>\<open>EEPROM.put\<close>) is kept explicitly.

  The target is the ESP8266: \<^verbatim>\<open>float\<close> is an IEEE 754 binary32 value and \<^verbatim>\<open>long\<close>
  is 32 bits wide, both stored little-endian; \<^verbatim>\<open>sizeof(Settings)\<close> is 12.
\<close>

type_synonym byte = "8 word"
type_synonym cfloat = "32 word"
type_synonym clong = "32 word"

record Settings =
  pzemEnergy :: cfloat
  coldWaterCounter :: clong
  hotWaterCounter :: clong

text \<open>The values the three WiFiManager parameters return from \<^verbatim>\<open>getValue()\<close>.\<close>

record Params =
  paramPzemEnergy :: cfloat
  paramColdWaterCounter :: clong
  paramHotWaterCounter :: clong

datatype param = ParamPzemEnergy | ParamColdWaterCounter | ParamHotWaterCounter

text \<open>The global objects that are handed to the timer dispatcher or receive calls.\<close>

datatype object =
  HotWaterCounter | ColdWaterCounter | HotCounter | ColdCounter | Sensors | Pzem | Pulsar

datatype call =
    Serial_begin nat
  | Serial_print string
  | Serial_println string
  | Serial_print_counter object
  | Serial_println_counter object
  | Delay nat
  | WiFi_mode_STA
  | RedLed_setDimm nat
  | RedLed_blink
  | Sensors_search
  | PinMode_SETUP_PIN
  | DigitalRead_SETUP_PIN
  | EEPROM_begin nat
  | EEPROM_get nat
  | EEPROM_put nat Settings
  | EEPROM_commit
  | Counter_init object clong
  | Pzem_init cfloat
  | Param_setValue_float param cfloat
  | Param_setValue_long param clong
  | Wm_addParameter param
  | Wm_setMenu "string list"
  | Wm_startConfigPortal
  | Wm_setSaveParamsCallback
  | Wm_autoConnect
  | Wm_startWebPortal
  | Wm_process
  | Td_startTimer object nat
  | Td_process
  | Counter_process object
  | Pzem_setValue cfloat
  | Counter_setValue object clong

record Board =
  settings :: Settings
  eeprom :: "nat \<Rightarrow> byte"
  callback_set :: bool
  calls :: "call list"

subsection \<open>Comparison of \<^verbatim>\<open>float\<close> values\<close>

text \<open>
  C's \<^verbatim>\<open>!=\<close> on two \<^verbatim>\<open>float\<close>s, on their bit patterns: a NaN differs from every
  value, itself included; the two zeros are equal; every other pair is equal exactly when
  the bit patterns are.
\<close>

definition float_is_nan :: "cfloat \<Rightarrow> bool" where
  "float_is_nan w \<longleftrightarrow> w AND 0x7F800000 = 0x7F800000 \<and> w AND 0x007FFFFF \<noteq> 0"

definition float_is_zero :: "cfloat \<Rightarrow> bool" where
  "float_is_zero w \<longleftrightarrow> w AND 0x7FFFFFFF = 0"

definition float_ne :: "cfloat \<Rightarrow> cfloat \<Rightarrow> bool" where
  "float_ne a b \<longleftrightarrow>
     float_is_nan a \<or> float_is_nan b \<or> (a \<noteq> b \<and> \<not> (float_is_zero a \<and> float_is_zero b))"

subsection \<open>The EEPROM buffer\<close>

definition byte_of :: "32 word \<Rightarrow> nat \<Rightarrow> byte" where
  "byte_of w i = ucast (drop_bit (8 * i) w)"

definition bytes32 :: "32 word \<Rightarrow> byte list" where
  "bytes32 w = [byte_of w 0, byte_of w 1, byte_of w 2, byte_of w 3]"

definition Settings_bytes :: "Settings \<Rightarrow> byte list" where
  "Settings_bytes s =
     bytes32 (pzemEnergy s) @ bytes32 (coldWaterCounter s) @ bytes32 (hotWaterCounter s)"

definition read32 :: "(nat \<Rightarrow> byte) \<Rightarrow> nat \<Rightarrow> 32 word" where
  "read32 e a =
     ucast (e a) OR push_bit 8 (ucast (e (a + 1))) OR push_bit 16 (ucast (e (a + 2)))
       OR push_bit 24 (ucast (e (a + 3)))"

text \<open>\<^verbatim>\<open>EEPROM.get(address, settings)\<close>: copies \<^verbatim>\<open>sizeof(Settings)\<close> bytes out.\<close>

definition EEPROM_get_Settings :: "(nat \<Rightarrow> byte) \<Rightarrow> nat \<Rightarrow> Settings" where
  "EEPROM_get_Settings e a =
     \<lparr>pzemEnergy = read32 e a, coldWaterCounter = read32 e (a + 4),
      hotWaterCounter = read32 e (a + 8)\<rparr>"

text \<open>\<^verbatim>\<open>EEPROM.put(address, t)\<close>: copies the bytes of \<^verbatim>\<open>t\<close> into the buffer.\<close>

definition EEPROM_write :: "nat \<Rightarrow> byte list \<Rightarrow> (nat \<Rightarrow> byte) \<Rightarrow> (nat \<Rightarrow> byte)" where
  "EEPROM_write addr bs e =
     (\<lambda>a. if addr \<le> a \<and> a < addr + length bs then bs ! (a - addr) else e a)"

subsection \<open>\<^verbatim>\<open>saveParamsCallback\<close>\<close>

definition emit :: "call list \<Rightarrow> Board \<Rightarrow> Board" where
  "emit cs b = b\<lparr>calls := calls b @ cs\<rparr>"

definition save_settings :: "bool \<Rightarrow> Board \<Rightarrow> Board" where
  \<comment> \<open>\<^verbatim>\<open>EEPROM.put(0, settings); if (EEPROM.commit()) ... else ...\<close>\<close>
  "save_settings commit_ok b =
     emit [EEPROM_put 0 (settings b), EEPROM_commit,
          Serial_println (if commit_ok then ''Settings saved'' else ''EEPROM error'')]
       (b\<lparr>eeprom := EEPROM_write 0 (Settings_bytes (settings b)) (eeprom b)\<rparr>)"

definition read_params :: "Params \<Rightarrow> Board \<Rightarrow> Board" where
  "read_params p b =
     b\<lparr>settings := \<lparr>pzemEnergy = paramPzemEnergy p,
                     coldWaterCounter = paramColdWaterCounter p,
                     hotWaterCounter = paramHotWaterCounter p\<rparr>\<rparr>"

definition saveParamsCallback :: "Params \<Rightarrow> bool \<Rightarrow> Board \<Rightarrow> Board" where
  "saveParamsCallback p commit_ok b =
     (let oldSettings = settings b;
          b1 = save_settings commit_ok (read_params p b);
          b2 = (if float_ne (pzemEnergy oldSettings) (pzemEnergy (settings b1))
                then emit [Pzem_setValue (pzemEnergy (settings b1))] b1 else b1);
          b3 = (if coldWaterCounter oldSettings \<noteq> coldWaterCounter (settings b2)
                then emit [Counter_setValue ColdCounter (coldWaterCounter (settings b2))] b2
                else b2);
          b4 = (if hotWaterCounter oldSettings \<noteq> hotWaterCounter (settings b3)
                then emit [Counter_setValue HotCounter (hotWaterCounter (settings b3))] b3
                else b3)
      in b4)"

subsection \<open>\<^verbatim>\<open>setup\<close>\<close>

text \<open>
  \<^verbatim>\<open>app::SECONDS\<close> and \<^verbatim>\<open>app::MINUTES\<close> come from the dispatcher's header and are
  parameters here (\<open>setup_main\<close> is the function \<^verbatim>\<open>setup\<close>, whose name is an
  Isabelle keyword). The inputs of \<^verbatim>\<open>setup\<close> are the level read on the setup pin, the
  parameter values after the configuration portal has returned, and the result of
  \<^verbatim>\<open>EEPROM.commit()\<close>. The two blocking WiFiManager calls are taken to return, as the code
  after them expects.
\<close>

record TimeUnits =
  SECONDS :: nat
  MINUTES :: nat

definition load_settings :: "Board \<Rightarrow> Board" where
  "load_settings b =
     emit [EEPROM_begin 512, EEPROM_get 0, Serial_println ''Settings loaded'']
       (b\<lparr>settings := EEPROM_get_Settings (eeprom b) 0\<rparr>)"

definition init_counters :: "Board \<Rightarrow> Board" where
  "init_counters b =
     emit [Counter_init ColdWaterCounter (coldWaterCounter (settings b)),
          Counter_init HotWaterCounter (hotWaterCounter (settings b)),
          Pzem_init (pzemEnergy (settings b))] b"

definition init_params :: "Board \<Rightarrow> Board" where
  "init_params b =
     emit [Param_setValue_float ParamPzemEnergy (pzemEnergy (settings b)),
          Param_setValue_long ParamColdWaterCounter (coldWaterCounter (settings b)),
          Param_setValue_long ParamHotWaterCounter (hotWaterCounter (settings b)),
          Wm_addParameter ParamPzemEnergy,
          Wm_addParameter ParamColdWaterCounter,
          Wm_addParameter ParamHotWaterCounter] b"

definition setup_mode :: "Params \<Rightarrow> bool \<Rightarrow> Board \<Rightarrow> Board" where
  \<comment> \<open>the branch taken when \<^verbatim>\<open>digitalRead(SETUP_PIN) == LOW\<close>\<close>
  "setup_mode p commit_ok b =
     save_settings commit_ok
       (read_params p
         (emit [Serial_println ''Setup pin is ON'', Serial_println ''-- SETUP --'',
               Wm_setMenu [''wifi'', ''param'', ''info'', ''exit'', ''sep'', ''update''],
               Wm_startConfigPortal] b))"

definition work_mode :: "Board \<Rightarrow> Board" where
  \<comment> \<open>the \<^verbatim>\<open>else\<close> branch\<close>
  "work_mode b =
     emit [Serial_println ''Setup pin is OFF'', Serial_println ''-- WORK --'',
          Wm_setSaveParamsCallback,
          Wm_setMenu [''wifi'', ''param'', ''info'', ''exit''],
          Wm_autoConnect, Wm_startWebPortal]
       (b\<lparr>callback_set := True\<rparr>)"

definition timers :: "TimeUnits \<Rightarrow> call list" where
  "timers u =
     [Td_startTimer HotCounter (60 * SECONDS u),
      Td_startTimer ColdCounter (60 * SECONDS u),
      Td_startTimer Sensors (5 * MINUTES u),
      Td_startTimer HotWaterCounter (15 * MINUTES u),
      Td_startTimer ColdWaterCounter (15 * MINUTES u),
      Td_startTimer Pzem (5 * MINUTES u),
      Td_startTimer Pulsar (30 * MINUTES u)]"

definition setup_main :: "TimeUnits \<Rightarrow> bool \<Rightarrow> Params \<Rightarrow> bool \<Rightarrow> Board \<Rightarrow> Board" where
  "setup_main u pin_low p commit_ok b =
     (let b1 = emit [Serial_begin 115200, Delay 1000, WiFi_mode_STA, RedLed_setDimm 30,
                    RedLed_blink, Sensors_search, PinMode_SETUP_PIN, Delay 1000] b;
          b2 = init_params (init_counters (load_settings b1));
          b3 = emit [DigitalRead_SETUP_PIN] b2;
          b4 = (if pin_low then setup_mode p commit_ok b3 else work_mode b3);
          b5 = emit ([Delay 1000] @ timers u) b4
      in emit [Serial_print ''Water counters, cold='', Serial_print_counter ColdWaterCounter,
              Serial_print '', hot='', Serial_println_counter HotWaterCounter,
              RedLed_blink, RedLed_blink] b5)"

text \<open>The state at reset: \<^verbatim>\<open>Settings settings = {0}\<close>, nothing called yet.\<close>

definition reset :: "(nat \<Rightarrow> byte) \<Rightarrow> Board" where
  "reset flash =
     \<lparr>settings = \<lparr>pzemEnergy = 0, coldWaterCounter = 0, hotWaterCounter = 0\<rparr>,
      eeprom = flash, callback_set = False, calls = []\<rparr>"

subsection \<open>\<^verbatim>\<open>loop\<close>\<close>

text \<open>
  One iteration. \<^verbatim>\<open>wm.process()\<close> serves the web portal; when a parameter form was
  submitted in this iteration and the callback is installed, it runs
  \<^verbatim>\<open>saveParamsCallback\<close>. The submission (the parameter values and the result of
  \<^verbatim>\<open>EEPROM.commit()\<close>) is the iteration's input.
\<close>

definition TICK_MS :: nat where
  "TICK_MS = 10"

definition wm_process :: "(Params \<times> bool) option \<Rightarrow> Board \<Rightarrow> Board" where
  "wm_process submitted b =
     (let b1 = emit [Wm_process] b
      in case submitted of
           None \<Rightarrow> b1
         | Some (p, commit_ok) \<Rightarrow>
             if callback_set b1 then saveParamsCallback p commit_ok b1 else b1)"

definition loop :: "(Params \<times> bool) option \<Rightarrow> Board \<Rightarrow> Board" where
  "loop submitted b =
     emit [Td_process, Delay TICK_MS]
       (wm_process submitted
         (emit [Counter_process HotCounter]
           (emit [Counter_process ColdCounter] b)))"

fun loops :: "(Params \<times> bool) option list \<Rightarrow> Board \<Rightarrow> Board" where
  "loops [] b = b"
| "loops (x # xs) b = loops xs (loop x b)"


definition new_calls :: "Board \<Rightarrow> Board \<Rightarrow> call list" where
  "new_calls b b' = drop (length (calls b)) (calls b')"

section \<open>The counters' log regions in the EEPROM\<close>

text \<open>
  \<^verbatim>\<open>main.cpp\<close> constructs \<^verbatim>\<open>hotWaterCounter(128, 30)\<close> and
  \<^verbatim>\<open>coldWaterCounter(256, 30)\<close>: a base offset and a capacity in slots. The size of one
  slot is fixed by the counter's class, whose header is not part of the file; it is the
  parameter \<open>slot_size\<close> (in bytes).
\<close>




section \<open>The Persistent Counter\<close>




text \<open>
  Modelled from the spec: the CounterState of the missing class, "currentValue (in-memory,
  authoritative), lastPersistedValue, rotation pointer (index of next slot to write)",
  with the "maxKnownGeneration" that \<^verbatim>\<open>process()\<close> increments.
\<close>

record CounterState =
  currentValue :: int
  lastPersistedValue :: int
  rotationPointer :: nat
  maxKnownGeneration :: nat




text \<open>
  Modelled from the spec: \<^verbatim>\<open>getValue()\<close> and \<^verbatim>\<open>setValue(v)\<close> of the missing class,
  "read/write currentValue"; \<^verbatim>\<open>setValue\<close> forces no flush.
\<close>

definition persistent_getValue :: "CounterState \<Rightarrow> int" where
  "persistent_getValue s = currentValue s"









section \<open>The Scheduler\<close>

text \<open>
  Modelled from the spec: the ScheduledTask of the missing class \<^verbatim>\<open>TimerDispatcher\<close>,
  "target duty reference, interval (time units), next-due timestamp".
\<close>

record 'd ScheduledTask =
  duty :: 'd
  interval :: nat
  nextDue :: nat


text \<open>
  Modelled from the spec: \<^verbatim>\<open>tick(now)\<close> of the missing class, "inspects every registered
  task and, for each whose next-due \<open>\<le>\<close> now, invokes it once and sets next-due = now +
  interval". The result is the updated task table and the duties invoked, in order.
\<close>

definition scheduler_tick ::
  "nat \<Rightarrow> 'd ScheduledTask list \<Rightarrow> 'd ScheduledTask list \<times> 'd list" where
  "scheduler_tick now tasks =
     (map (\<lambda>t. if nextDue t \<le> now then t\<lparr>nextDue := now + interval t\<rparr> else t) tasks,
      map duty (filter (\<lambda>t. nextDue t \<le> now) tasks))"


fun scheduler_state :: "nat list \<Rightarrow> 'd ScheduledTask list \<Rightarrow> 'd ScheduledTask list" where
  "scheduler_state [] tasks = tasks"
| "scheduler_state (now # ts) tasks = scheduler_state ts (fst (scheduler_tick now tasks))"

definition firing_times :: "'d \<Rightarrow> (nat \<times> 'd) list \<Rightarrow> nat list" where
  "firing_times d fired = map fst (filter (\<lambda>e. snd e = d) fired)"


section \<open>Properties of \<^verbatim>\<open>saveParamsCallback\<close>\<close>

lemma calls_emit [simp]: "calls (emit cs b) = calls b @ cs"
  by (simp add: emit_def)

lemma settings_emit [simp]: "settings (emit cs b) = settings b"
  by (simp add: emit_def)

lemma eeprom_emit [simp]: "eeprom (emit cs b) = eeprom b"
  by (simp add: emit_def)

lemma callback_set_emit [simp]: "callback_set (emit cs b) = callback_set b"
  by (simp add: emit_def)

lemma save_settings_simps [simp]:
  "calls (save_settings ok b) =
     calls b @ [EEPROM_put 0 (settings b), EEPROM_commit,
                Serial_println (if ok then ''Settings saved'' else ''EEPROM error'')]"
  "settings (save_settings ok b) = settings b"
  "callback_set (save_settings ok b) = callback_set b"
  "eeprom (save_settings ok b) = EEPROM_write 0 (Settings_bytes (settings b)) (eeprom b)"
  by (simp_all add: save_settings_def)

lemma read_params_simps [simp]:
  "calls (read_params p b) = calls b"
  "eeprom (read_params p b) = eeprom b"
  "callback_set (read_params p b) = callback_set b"
  "pzemEnergy (settings (read_params p b)) = paramPzemEnergy p"
  "coldWaterCounter (settings (read_params p b)) = paramColdWaterCounter p"
  "hotWaterCounter (settings (read_params p b)) = paramHotWaterCounter p"
  by (simp_all add: read_params_def)

lemma saveParamsCallback_calls:
  "calls (saveParamsCallback p ok b) =
     calls b
     @ [EEPROM_put 0 (settings (read_params p b)), EEPROM_commit,
        Serial_println (if ok then ''Settings saved'' else ''EEPROM error'')]
     @ (if float_ne (pzemEnergy (settings b)) (paramPzemEnergy p)
        then [Pzem_setValue (paramPzemEnergy p)] else [])
     @ (if coldWaterCounter (settings b) \<noteq> paramColdWaterCounter p
        then [Counter_setValue ColdCounter (paramColdWaterCounter p)] else [])
     @ (if hotWaterCounter (settings b) \<noteq> paramHotWaterCounter p
        then [Counter_setValue HotCounter (paramHotWaterCounter p)] else [])"
  by (simp add: saveParamsCallback_def Let_def)

lemma saveParamsCallback_settings [simp]:
  "settings (saveParamsCallback p ok b) = settings (read_params p b)"
  by (simp add: saveParamsCallback_def Let_def)

lemma saveParamsCallback_eeprom:
  "eeprom (saveParamsCallback p ok b) =
     EEPROM_write 0 (Settings_bytes (settings (read_params p b))) (eeprom b)"
  by (simp add: saveParamsCallback_def Let_def)

lemma saveParamsCallback_callback_set [simp]:
  "callback_set (saveParamsCallback p ok b) = callback_set b"
  by (simp add: saveParamsCallback_def Let_def)

lemma new_calls_append [simp]: "calls b' = calls b @ cs \<Longrightarrow> new_calls b b' = cs"
  by (simp add: new_calls_def)

subsection \<open>The comparison of \<^verbatim>\<open>float\<close> values at sample points\<close>

lemma float_ne_same: "float_ne x x \<longleftrightarrow> float_is_nan x"
  by (simp add: float_ne_def)

lemma float_ne_ordinary:
  "\<not> float_is_nan a \<Longrightarrow> \<not> float_is_nan b \<Longrightarrow> \<not> (float_is_zero a \<and> float_is_zero b) \<Longrightarrow>
     float_ne a b \<longleftrightarrow> a \<noteq> b"
  by (simp add: float_ne_def)

lemma float_samples:
  "float_is_nan 0x7FC00000" "float_is_nan 0xFFFFFFFF"
  "\<not> float_is_nan 0x7F800000" "\<not> float_is_nan 0xFF800000"
  "\<not> float_is_nan 0x3F800000" "\<not> float_is_nan 0"
  "float_is_zero 0" "float_is_zero 0x80000000" "\<not> float_is_zero 0x3F800000"
  "\<not> float_ne 0 0x80000000" "float_ne 0x3F800000 0x40000000"
  "\<not> float_ne 0x3F800000 0x3F800000" "float_ne 0x7FC00000 0x7FC00000"
  by (simp_all add: float_ne_def float_is_nan_def float_is_zero_def)

lemma read32_blank: "read32 (\<lambda>a. 255) n = 0xFFFFFFFF"
  by (simp add: read32_def)

text \<open>
  Claim C10, as the code has it. A run of \<^verbatim>\<open>saveParamsCallback\<close> makes exactly these
  calls, in this order: \<^verbatim>\<open>EEPROM.put(0, settings)\<close> with the full new record,
  \<^verbatim>\<open>EEPROM.commit()\<close>, the message for the commit's result; then
  \<^verbatim>\<open>pzem.setValue\<close> with the new energy if the stored and the new energy compare
  unequal under C's \<^verbatim>\<open>!=\<close> on \<^verbatim>\<open>float\<close>, that is, if one of them is a NaN, or if
  their bit patterns differ and they are not the two zeros; then
  \<^verbatim>\<open>coldCounter.setValue\<close> with the new value if the stored and the new cold counter
  value differ; then \<^verbatim>\<open>hotCounter.setValue\<close> likewise. It makes no other call, so a
  component whose comparison finds no difference is left untouched. Afterwards the
  settings hold the new values, the EEPROM buffer holds the record's twelve bytes at
  offsets 0 to 11 and is otherwise as before, and the installed callback is as before.
\<close>

theorem saveParamsCallback_effect:
  "new_calls b (saveParamsCallback p ok b) =
     [EEPROM_put 0 \<lparr>pzemEnergy = paramPzemEnergy p,
                     coldWaterCounter = paramColdWaterCounter p,
                     hotWaterCounter = paramHotWaterCounter p\<rparr>,
      EEPROM_commit,
      Serial_println (if ok then ''Settings saved'' else ''EEPROM error'')]
     @ (if float_is_nan (pzemEnergy (settings b)) \<or> float_is_nan (paramPzemEnergy p)
           \<or> (pzemEnergy (settings b) \<noteq> paramPzemEnergy p
               \<and> \<not> (float_is_zero (pzemEnergy (settings b))
                      \<and> float_is_zero (paramPzemEnergy p)))
        then [Pzem_setValue (paramPzemEnergy p)] else [])
     @ (if coldWaterCounter (settings b) \<noteq> paramColdWaterCounter p
        then [Counter_setValue ColdCounter (paramColdWaterCounter p)] else [])
     @ (if hotWaterCounter (settings b) \<noteq> paramHotWaterCounter p
        then [Counter_setValue HotCounter (paramHotWaterCounter p)] else [])
   \<and> settings (saveParamsCallback p ok b) =
        \<lparr>pzemEnergy = paramPzemEnergy p, coldWaterCounter = paramColdWaterCounter p,
         hotWaterCounter = paramHotWaterCounter p\<rparr>
   \<and> eeprom (saveParamsCallback p ok b) =
        (\<lambda>a. if a < 12 then Settings_bytes (settings (saveParamsCallback p ok b)) ! a
              else eeprom b a)
   \<and> callback_set (saveParamsCallback p ok b) = callback_set b
   \<and> calls (saveParamsCallback p ok b) = calls b @ new_calls b (saveParamsCallback p ok b)"
proof -
  let ?b' = "saveParamsCallback p ok b"
  let ?new = "\<lparr>pzemEnergy = paramPzemEnergy p, coldWaterCounter = paramColdWaterCounter p,
         hotWaterCounter = paramHotWaterCounter p\<rparr>"
  have s: "settings (read_params p b) = ?new"
    by (simp add: read_params_def)
  have c: "calls ?b' = calls b @
     ([EEPROM_put 0 ?new, EEPROM_commit,
        Serial_println (if ok then ''Settings saved'' else ''EEPROM error'')]
     @ (if float_is_nan (pzemEnergy (settings b)) \<or> float_is_nan (paramPzemEnergy p)
           \<or> (pzemEnergy (settings b) \<noteq> paramPzemEnergy p
               \<and> \<not> (float_is_zero (pzemEnergy (settings b))
                      \<and> float_is_zero (paramPzemEnergy p)))
        then [Pzem_setValue (paramPzemEnergy p)] else [])
     @ (if coldWaterCounter (settings b) \<noteq> paramColdWaterCounter p
        then [Counter_setValue ColdCounter (paramColdWaterCounter p)] else [])
     @ (if hotWaterCounter (settings b) \<noteq> paramHotWaterCounter p
        then [Counter_setValue HotCounter (paramHotWaterCounter p)] else []))"
    by (simp add: saveParamsCallback_calls s float_ne_def)
  have 1: "new_calls b ?b' = 
     [EEPROM_put 0 ?new, EEPROM_commit,
        Serial_println (if ok then ''Settings saved'' else ''EEPROM error'')]
     @ (if float_is_nan (pzemEnergy (settings b)) \<or> float_is_nan (paramPzemEnergy p)
           \<or> (pzemEnergy (settings b) \<noteq> paramPzemEnergy p
               \<and> \<not> (float_is_zero (pzemEnergy (settings b))
                      \<and> float_is_zero (paramPzemEnergy p)))
        then [Pzem_setValue (paramPzemEnergy p)] else [])
     @ (if coldWaterCounter (settings b) \<noteq> paramColdWaterCounter p
        then [Counter_setValue ColdCounter (paramColdWaterCounter p)] else [])
     @ (if hotWaterCounter (settings b) \<noteq> paramHotWaterCounter p
        then [Counter_setValue HotCounter (paramHotWaterCounter p)] else [])"
    using c by (rule new_calls_append)
  have 2: "settings ?b' = ?new"
    by (simp add: s)
  have len: "length (Settings_bytes x) = 12" for x
    by (simp add: Settings_bytes_def bytes32_def)
  have 3: "eeprom ?b' = (\<lambda>a. if a < 12 then Settings_bytes (settings ?b') ! a else eeprom b a)"
    by (rule ext) (simp add: saveParamsCallback_eeprom EEPROM_write_def len)
  have 4: "callback_set ?b' = callback_set b"
    by simp
  have 5: "calls ?b' = calls b @ new_calls b ?b'"
    unfolding 1 by (rule c)
  from 1 2 3 4 5 show ?thesis by (simp only: simp_thms)
qed

theorem saveParamsCallback_effect_witness:
  "new_calls (reset (\<lambda>a. 0)) (saveParamsCallback
       \<lparr>paramPzemEnergy = 0x3F800000, paramColdWaterCounter = 0, paramHotWaterCounter = 5\<rparr>
       True (reset (\<lambda>a. 0)))
   = [EEPROM_put 0 \<lparr>pzemEnergy = 0x3F800000, coldWaterCounter = 0, hotWaterCounter = 5\<rparr>,
      EEPROM_commit, Serial_println ''Settings saved'',
      Pzem_setValue 0x3F800000, Counter_setValue HotCounter 5]"
  using saveParamsCallback_effect [of "reset (\<lambda>a. 0)"
     "\<lparr>paramPzemEnergy = 0x3F800000, paramColdWaterCounter = 0, paramHotWaterCounter = 5\<rparr>" True]
  by (simp add: reset_def float_is_nan_def float_is_zero_def)

text \<open>
  Claim C10 as stated fails for an unchanged NaN. Boot from a blank flash (every byte
  0xFF) with the setup pin high: \<^verbatim>\<open>settings.pzemEnergy\<close> is the NaN 0xFFFFFFFF.
  Submitting the same three values leaves the settings as they were, yet
  \<^verbatim>\<open>pzem.setValue\<close> is called.
\<close>

theorem saveParamsCallback_unchanged_nan_counterexample:
  "settings (saveParamsCallback
       \<lparr>paramPzemEnergy = 0xFFFFFFFF, paramColdWaterCounter = 0xFFFFFFFF,
        paramHotWaterCounter = 0xFFFFFFFF\<rparr> True
       (setup_main \<lparr>SECONDS = 1000, MINUTES = 60000\<rparr> False
          \<lparr>paramPzemEnergy = 0, paramColdWaterCounter = 0, paramHotWaterCounter = 0\<rparr> True
          (reset (\<lambda>a. 255))))
     = settings (setup_main \<lparr>SECONDS = 1000, MINUTES = 60000\<rparr> False
          \<lparr>paramPzemEnergy = 0, paramColdWaterCounter = 0, paramHotWaterCounter = 0\<rparr> True
          (reset (\<lambda>a. 255)))
   \<and> paramPzemEnergy \<lparr>paramPzemEnergy = 0xFFFFFFFF, paramColdWaterCounter = 0xFFFFFFFF,
        paramHotWaterCounter = 0xFFFFFFFF\<rparr>
     = pzemEnergy (settings (setup_main \<lparr>SECONDS = 1000, MINUTES = 60000\<rparr> False
          \<lparr>paramPzemEnergy = 0, paramColdWaterCounter = 0, paramHotWaterCounter = 0\<rparr> True
          (reset (\<lambda>a. 255))))
   \<and> Pzem_setValue 0xFFFFFFFF \<in> set (new_calls
       (setup_main \<lparr>SECONDS = 1000, MINUTES = 60000\<rparr> False
          \<lparr>paramPzemEnergy = 0, paramColdWaterCounter = 0, paramHotWaterCounter = 0\<rparr> True
          (reset (\<lambda>a. 255)))
       (saveParamsCallback
       \<lparr>paramPzemEnergy = 0xFFFFFFFF, paramColdWaterCounter = 0xFFFFFFFF,
        paramHotWaterCounter = 0xFFFFFFFF\<rparr> True
       (setup_main \<lparr>SECONDS = 1000, MINUTES = 60000\<rparr> False
          \<lparr>paramPzemEnergy = 0, paramColdWaterCounter = 0, paramHotWaterCounter = 0\<rparr> True
          (reset (\<lambda>a. 255)))))"
proof -
  let ?B = "setup_main \<lparr>SECONDS = 1000, MINUTES = 60000\<rparr> False
          \<lparr>paramPzemEnergy = 0, paramColdWaterCounter = 0, paramHotWaterCounter = 0\<rparr> True
          (reset (\<lambda>a. 255))"
  let ?P = "\<lparr>paramPzemEnergy = 0xFFFFFFFF, paramColdWaterCounter = 0xFFFFFFFF,
        paramHotWaterCounter = 0xFFFFFFFF\<rparr>"
  have B: "settings ?B = \<lparr>pzemEnergy = 0xFFFFFFFF, coldWaterCounter = 0xFFFFFFFF,
      hotWaterCounter = 0xFFFFFFFF\<rparr>"
    by (simp add: setup_main_def Let_def load_settings_def init_counters_def init_params_def
        work_mode_def EEPROM_get_Settings_def reset_def read32_blank)
  have nan: "float_ne 0xFFFFFFFF 0xFFFFFFFF"
    by (simp add: float_ne_def float_is_nan_def)
  have "calls (saveParamsCallback ?P True ?B) =
      calls ?B @ [EEPROM_put 0 (settings (read_params ?P ?B)), EEPROM_commit,
        Serial_println ''Settings saved'', Pzem_setValue 0xFFFFFFFF]"
    by (simp add: saveParamsCallback_calls B nan)
  then have "new_calls ?B (saveParamsCallback ?P True ?B) =
      [EEPROM_put 0 (settings (read_params ?P ?B)), EEPROM_commit,
        Serial_println ''Settings saved'', Pzem_setValue 0xFFFFFFFF]"
    by (rule new_calls_append)
  then show ?thesis
    by (simp add: B read_params_def)
qed

section \<open>Properties of \<^verbatim>\<open>setup\<close> and \<^verbatim>\<open>loop\<close>\<close>








lemma wm_process_calls:
  "\<exists>mid. calls (wm_process x b) = calls b @ Wm_process # mid
     \<and> Td_process \<notin> set mid \<and> (\<forall>obj. Counter_process obj \<notin> set mid)"
  by (cases x) (auto simp: wm_process_def Let_def saveParamsCallback_calls)

text \<open>
  Claim C3. In every iteration of \<^verbatim>\<open>loop\<close>, from any state and with any portal input,
  the calls made are: \<^verbatim>\<open>coldCounter.process()\<close>, \<^verbatim>\<open>hotCounter.process()\<close>,
  \<^verbatim>\<open>wm.process()\<close> with whatever the save callback does, and only then the single
  \<^verbatim>\<open>td.process()\<close>, followed by the delay. Both pulse counters are sampled before the
  dispatcher runs its due duties, and nothing in between samples or dispatches again.
\<close>

theorem loop_samples_before_dispatch:
  "\<exists>mid. new_calls b (loop x b) =
      [Counter_process ColdCounter, Counter_process HotCounter, Wm_process] @ mid
        @ [Td_process, Delay TICK_MS]
     \<and> Td_process \<notin> set mid \<and> (\<forall>obj. Counter_process obj \<notin> set mid)"
proof -
  let ?b1 = "emit [Counter_process HotCounter] (emit [Counter_process ColdCounter] b)"
  obtain mid where mid: "calls (wm_process x ?b1) = calls ?b1 @ Wm_process # mid"
    "Td_process \<notin> set mid" "\<forall>obj. Counter_process obj \<notin> set mid"
    using wm_process_calls [of x ?b1] by blast
  have "new_calls b (loop x b) =
      [Counter_process ColdCounter, Counter_process HotCounter, Wm_process] @ mid
        @ [Td_process, Delay TICK_MS]"
    by (simp add: new_calls_def loop_def mid(1))
  with mid(2,3) show ?thesis by blast
qed

section \<open>The log regions and the EEPROM writes of \<^verbatim>\<open>main.cpp\<close>\<close>

lemma length_Settings_bytes [simp]: "length (Settings_bytes s) = 12"
  by (simp add: Settings_bytes_def bytes32_def)








section \<open>The boot scan of the Persistent Counter\<close>











section \<open>Timing of the Scheduler\<close>

lemma tick_duties [simp]: "map duty (fst (scheduler_tick now tasks)) = map duty tasks"
  by (induction tasks) (auto simp: scheduler_tick_def)



lemma firing_times_append [simp]:
  "firing_times d (xs @ ys) = firing_times d xs @ firing_times d ys"
  by (simp add: firing_times_def)










lemma scheduler_state_duties [simp]:
  "map duty (scheduler_state ts tasks) = map duty tasks"
  by (induction ts arbitrary: tasks) simp_all






end
